theory Spec2Isabelle
  imports Complex_Main
begin

section \<open>Python floats: IEEE 754 binary64 with round-to-nearest-even\<close>

text \<open>
  \<^verbatim>\<open>Statistics.py\<close> computes with Python floats. A float is modelled by the real number
  it denotes, or by one of the three special values. The two zeros are identified:
  Python's \<^verbatim>\<open>==\<close> does not tell them apart, and a division by either raises.
  Every arithmetic operation computes the exact real result and rounds it to the nearest
  binary64 value, ties to the even significand; a result of magnitude at least
  \<open>2 ^ 1024\<close> after rounding becomes an infinity.
\<close>

datatype double = Finite real | PosInf | NegInf | NaN

fun bitlen :: "nat \<Rightarrow> nat" where
  "bitlen n = (if n = 0 then 0 else Suc (bitlen (n div 2)))"

declare bitlen.simps [simp del]

definition pow2 :: "int \<Rightarrow> real" where
  "pow2 e = (if 0 \<le> e then 2 ^ nat e else 1 / 2 ^ nat (- e))"

text \<open>
  The binary exponent \<open>\<lfloor>log\<^sub>2 a\<rfloor>\<close> of a positive number: from the bit length of its
  integer part when it is at least one, of the integer part of its inverse otherwise.
\<close>

definition ilog2_below :: "real \<Rightarrow> int \<Rightarrow> int" where
  "ilog2_below a k = (if a = pow2 (- k) then - k else - k - 1)"

definition ilog2 :: "real \<Rightarrow> int" where
  "ilog2 a =
     (if 1 \<le> a then int (bitlen (nat \<lfloor>a\<rfloor>)) - 1
      else ilog2_below a (int (bitlen (nat \<lfloor>1 / a\<rfloor>)) - 1))"

text \<open>The nearest integer, a tie going to the even one; \<open>f\<close> is the floor of \<open>x\<close>.\<close>

definition nearest_even :: "real \<Rightarrow> int \<Rightarrow> int" where
  "nearest_even x f =
     (if x - of_int f < 1 / 2 then f
      else if 1 / 2 < x - of_int f then f + 1
      else if even f then f else f + 1)"

definition round_half_even :: "real \<Rightarrow> int" where
  "round_half_even x = nearest_even x \<lfloor>x\<rfloor>"

definition round_to_ulp :: "real \<Rightarrow> real \<Rightarrow> real" where
  "round_to_ulp a u = of_int (round_half_even (a / u)) * u"

definition in_range :: "real \<Rightarrow> double" where
  "in_range r = (if pow2 1024 \<le> r then PosInf else Finite r)"

text \<open>
  Rounding to binary64: 53 significant bits, so the unit in the last place is
  \<open>2 ^ (e - 52)\<close> for a number of exponent \<open>e\<close>, and never below \<open>2 ^ - 1074\<close>
  (the subnormal range).
\<close>

definition round_pos :: "real \<Rightarrow> double" where
  "round_pos a = in_range (round_to_ulp a (pow2 (max (ilog2 a) (- 1022) - 52)))"

fun float_neg :: "double \<Rightarrow> double" where
  "float_neg (Finite a) = Finite (- a)"
| "float_neg PosInf = NegInf"
| "float_neg NegInf = PosInf"
| "float_neg NaN = NaN"

definition round_double :: "real \<Rightarrow> double" where
  "round_double q =
     (if q = 0 then Finite 0
      else if 0 < q then round_pos q
      else float_neg (round_pos (- q)))"

text \<open>A value is a binary64 number when rounding leaves it as it is.\<close>

fun is_double :: "double \<Rightarrow> bool" where
  "is_double (Finite q) = (round_double q = Finite q)"
| "is_double PosInf = True"
| "is_double NegInf = True"
| "is_double NaN = True"

fun is_neg :: "double \<Rightarrow> bool" where
  "is_neg (Finite a) = (a < 0)"
| "is_neg NegInf = True"
| "is_neg PosInf = False"
| "is_neg NaN = False"

fun float_abs :: "double \<Rightarrow> double" where
  "float_abs (Finite a) = Finite \<bar>a\<bar>"
| "float_abs PosInf = PosInf"
| "float_abs NegInf = PosInf"
| "float_abs NaN = NaN"

fun float_add :: "double \<Rightarrow> double \<Rightarrow> double" where
  "float_add (Finite a) (Finite b) = round_double (a + b)"
| "float_add NaN y = NaN"
| "float_add x NaN = NaN"
| "float_add PosInf NegInf = NaN"
| "float_add NegInf PosInf = NaN"
| "float_add PosInf y = PosInf"
| "float_add NegInf y = NegInf"
| "float_add x PosInf = PosInf"
| "float_add x NegInf = NegInf"

definition float_sub :: "double \<Rightarrow> double \<Rightarrow> double" where
  "float_sub x y = float_add x (float_neg y)"

fun float_mul :: "double \<Rightarrow> double \<Rightarrow> double" where
  "float_mul (Finite a) (Finite b) = round_double (a * b)"
| "float_mul NaN y = NaN"
| "float_mul x NaN = NaN"
| "float_mul x y =
     (if x = Finite 0 \<or> y = Finite 0 then NaN
      else if is_neg x = is_neg y then PosInf else NegInf)"

text \<open>The IEEE quotient; Python calls it only with a divisor that is not zero.\<close>

fun ieee_div :: "double \<Rightarrow> double \<Rightarrow> double" where
  "ieee_div (Finite a) (Finite b) = round_double (a / b)"
| "ieee_div NaN y = NaN"
| "ieee_div x NaN = NaN"
| "ieee_div (Finite a) y = Finite 0"
| "ieee_div x (Finite b) = (if is_neg x = (b < 0) then PosInf else NegInf)"
| "ieee_div x y = NaN"

section \<open>Exceptions\<close>

text \<open>
  The module raises the base class \<^verbatim>\<open>Exception\<close> with a message; the interpreter raises
  the built-in exceptions of float arithmetic. The error kinds of the specification are
  read off the messages.
\<close>

datatype error =
    Exception string
  | ZeroDivisionError
  | OverflowError
  | ValueError
  | TypeError

definition EmptyInputError :: "error \<Rightarrow> bool" where
  "EmptyInputError e =
     (e = Exception ''One or more data points must exist.'' \<or>
      e = Exception ''Arguments cannot be empty.'')"

definition LengthMismatchError :: "error \<Rightarrow> bool" where
  "LengthMismatchError e =
     (e = Exception ''Arguments must have the same number of data points.'')"

definition ZeroVarianceError :: "error \<Rightarrow> bool" where
  "ZeroVarianceError e =
     (e = Exception ''Standard deviation of an argument cannot be zero.'' \<or>
      e = Exception ''The variance of known_x cannot equal zero.'')"

definition NotANumberError :: "error \<Rightarrow> bool" where
  "NotANumberError e = (e = Exception ''X must be a numeric value.'')"

definition raises :: "(error \<Rightarrow> bool) \<Rightarrow> error + 'a \<Rightarrow> bool" where
  "raises P r = (case r of Inl e \<Rightarrow> P e | Inr v \<Rightarrow> False)"

text \<open>Sequencing: the first exception raised ends the computation.\<close>

definition and_then :: "error + 'a \<Rightarrow> ('a \<Rightarrow> error + 'b) \<Rightarrow> error + 'b" where
  "and_then m f = (case m of Inl e \<Rightarrow> Inl e | Inr v \<Rightarrow> f v)"

section \<open>The operators and built-ins the module uses\<close>

text \<open>\<^verbatim>\<open>a / b\<close> on floats: a zero divisor raises, whatever the dividend is.\<close>

definition float_div :: "double \<Rightarrow> double \<Rightarrow> error + double" where
  "float_div x y = (if y = Finite 0 then Inl ZeroDivisionError else Inr (ieee_div x y))"

text \<open>
  \<^verbatim>\<open>x ** 2\<close> on a float: the rounded square; a finite operand whose square is out of
  range raises, an underflow gives zero.
\<close>

fun float_sq :: "double \<Rightarrow> error + double" where
  "float_sq (Finite a) =
     (case round_double (a * a) of Finite r \<Rightarrow> Inr (Finite r) | _ \<Rightarrow> Inl OverflowError)"
| "float_sq NaN = Inr NaN"
| "float_sq PosInf = Inr PosInf"
| "float_sq NegInf = Inr PosInf"

definition isqrt_step :: "nat \<Rightarrow> nat \<Rightarrow> nat" where
  "isqrt_step n r = (if (r + 1) * (r + 1) \<le> n then r + 1 else r)"

fun isqrt :: "nat \<Rightarrow> nat" where
  "isqrt n = (if n = 0 then 0 else isqrt_step n (2 * isqrt (n div 4)))"

declare isqrt.simps [simp del]

text \<open>
  The correctly rounded square root of a positive number: the integer square root \<open>s\<close> of
  the number scaled by \<open>4 ^ k\<close> to some 128 bits, with one more bit that records whether
  anything was cut off, rounded to binary64.
\<close>

definition sqrt_round :: "real \<Rightarrow> int \<Rightarrow> nat \<Rightarrow> double" where
  "sqrt_round a k s =
     round_double
       ((real (2 * s) + (if real (s * s) = a * pow2 (2 * k) then 0 else 1)) * pow2 (- k - 1))"

definition sqrt_scaled :: "real \<Rightarrow> int \<Rightarrow> double" where
  "sqrt_scaled a k = sqrt_round a k (isqrt (nat \<lfloor>a * pow2 (2 * k)\<rfloor>))"

definition sqrt_double :: "real \<Rightarrow> double" where
  "sqrt_double a = (if a = 0 then Finite 0 else sqrt_scaled a (64 - ilog2 a div 2))"

text \<open>\<^verbatim>\<open>math.sqrt\<close>: a negative operand is a domain error.\<close>

fun math_sqrt :: "double \<Rightarrow> error + double" where
  "math_sqrt (Finite a) = (if a < 0 then Inl ValueError else Inr (sqrt_double a))"
| "math_sqrt PosInf = Inr PosInf"
| "math_sqrt NegInf = Inl ValueError"
| "math_sqrt NaN = Inr NaN"

text \<open>
  \<^verbatim>\<open>float(n)\<close> is only ever applied to the length of a sequence (or to it less one),
  which is below \<open>2 ^ 53\<close> for every sequence that fits in memory, so the conversion is
  exact.
\<close>

definition py_float :: "nat \<Rightarrow> double" where
  "py_float n = Finite (real n)"

text \<open>
  \<^verbatim>\<open>sum(data)\<close> adds from the left, starting at the integer zero, which becomes the
  float zero at the first addition.
\<close>

definition py_sum :: "double list \<Rightarrow> double" where
  "py_sum data = foldl float_add (Finite 0) data"

section \<open>Statistics.py\<close>

definition average :: "double list \<Rightarrow> error + double" where
  "average data =
     (let n = length data
      in if n = 0 then Inl (Exception ''One or more data points must exist.'')
         else float_div (py_sum data) (py_float n))"

definition avgdev :: "double list \<Rightarrow> error + double" where
  "avgdev data =
     (let n = length data
      in if n = 0 then Inl (Exception ''One or more data points must exist.'')
         else and_then (average data) (\<lambda>mu.
              let tot = foldl (\<lambda>tot x. float_add tot (float_abs (float_sub x mu)))
                          (Finite 0) data
              in and_then (float_div (Finite 1) (py_float n)) (\<lambda>r.
                 Inr (float_mul r tot))))"

text \<open>The loop of \<^verbatim>\<open>devsq\<close>; the power can raise in the middle of it.\<close>

fun devsq_loop :: "double \<Rightarrow> double \<Rightarrow> double list \<Rightarrow> error + double" where
  "devsq_loop mu tot [] = Inr tot"
| "devsq_loop mu tot (x # xs) =
     (case float_sq (float_sub x mu) of
        Inl e \<Rightarrow> Inl e
      | Inr d \<Rightarrow> devsq_loop mu (float_add tot d) xs)"

definition devsq :: "double list \<Rightarrow> error + double" where
  "devsq data = and_then (average data) (\<lambda>mu. devsq_loop mu (Finite 0) data)"

definition variance :: "double list \<Rightarrow> bool \<Rightarrow> error + double" where
  "variance data is_sample =
     (let n = length data
      in if n = 0 then Inl (Exception ''One or more data points must exist.'')
         else and_then (average data) (\<lambda>mu.
              and_then (devsq data) (\<lambda>ds.
              if is_sample then float_div ds (py_float (n - 1))
              else float_div ds (py_float n))))"

definition var :: "double list \<Rightarrow> error + double" where
  "var data = variance data True"

definition varp :: "double list \<Rightarrow> error + double" where
  "varp data = variance data False"

definition standard_deviation :: "double list \<Rightarrow> bool \<Rightarrow> error + double" where
  "standard_deviation data is_sample =
     (if is_sample then and_then (var data) math_sqrt
      else and_then (varp data) math_sqrt)"

definition stdev :: "double list \<Rightarrow> error + double" where
  "stdev data = standard_deviation data True"

definition stdevp :: "double list \<Rightarrow> error + double" where
  "stdevp data = standard_deviation data False"

definition sumdev :: "double list \<Rightarrow> double list \<Rightarrow> error + double" where
  "sumdev array1 array2 =
     (let n1 = length array1; n2 = length array2
      in if n1 = 0 \<or> n2 = 0 then Inl (Exception ''Arguments cannot be empty.'')
         else if n1 \<noteq> n2
           then Inl (Exception ''Arguments must have the same number of data points.'')
         else and_then (average array1) (\<lambda>mu1.
              and_then (average array2) (\<lambda>mu2.
              Inr (foldl (\<lambda>tot (x, y).
                          float_add tot (float_mul (float_sub x mu1) (float_sub y mu2)))
                     (Finite 0) (zip array1 array2)))))"

definition covar :: "double list \<Rightarrow> double list \<Rightarrow> error + double" where
  "covar array1 array2 =
     (let n1 = length array1; n2 = length array2
      in if n1 = 0 \<or> n2 = 0 then Inl (Exception ''Arguments cannot be empty.'')
         else if n1 \<noteq> n2
           then Inl (Exception ''Arguments must have the same number of data points.'')
         else and_then (sumdev array1 array2) (\<lambda>s. float_div s (py_float n1)))"

definition correl :: "double list \<Rightarrow> double list \<Rightarrow> error + double" where
  "correl array1 array2 =
     (let n1 = length array1; n2 = length array2
      in if n1 = 0 \<or> n2 = 0 then Inl (Exception ''Arguments cannot be empty.'')
         else if n1 \<noteq> n2
           then Inl (Exception ''Arguments must have the same number of data points.'')
         else and_then (stdevp array1) (\<lambda>stdev1.
              and_then (stdevp array2) (\<lambda>stdev2.
              if stdev1 = Finite 0 \<or> stdev2 = Finite 0
                then Inl (Exception ''Standard deviation of an argument cannot be zero.'')
              else and_then (covar array1 array2) (\<lambda>c.
                   float_div c (float_mul stdev1 stdev2)))))"

definition pearson :: "double list \<Rightarrow> double list \<Rightarrow> error + double" where
  "pearson array1 array2 = correl array1 array2"

definition rsq :: "double list \<Rightarrow> double list \<Rightarrow> error + double" where
  "rsq known_y known_x = and_then (correl known_y known_x) float_sq"

definition slope :: "double list \<Rightarrow> double list \<Rightarrow> error + double" where
  "slope known_y known_x =
     and_then (sumdev known_x known_y) (\<lambda>s.
     and_then (devsq known_x) (\<lambda>d.
     float_div s d))"

definition intercept :: "double list \<Rightarrow> double list \<Rightarrow> error + double" where
  "intercept known_y known_x =
     and_then (average known_y) (\<lambda>muy.
     and_then (average known_x) (\<lambda>mux.
     and_then (slope known_y known_x) (\<lambda>b.
     Inr (float_sub muy (float_mul b mux)))))"

text \<open>
  The scalar argument of \<^verbatim>\<open>forecast\<close> can be any object. \<^verbatim>\<open>hasattr\<close> looks a name up
  among the attributes of the object; of these only the special methods that the
  arithmetic protocol of the built-in types defines are listed. \<^verbatim>\<open>bool\<close> is a subclass
  of \<^verbatim>\<open>int\<close> and inherits its methods.
\<close>

datatype pyobj = PyInt int | PyFloat double | PyBool bool | PyStr string | PyNone

fun special_methods :: "pyobj \<Rightarrow> string list" where
  "special_methods (PyInt i) =
     [''__abs__'', ''__add__'', ''__float__'', ''__index__'', ''__int__'', ''__mul__'']"
| "special_methods (PyBool b) =
     [''__abs__'', ''__add__'', ''__float__'', ''__index__'', ''__int__'', ''__mul__'']"
| "special_methods (PyFloat d) =
     [''__abs__'', ''__add__'', ''__float__'', ''__int__'', ''__mul__'']"
| "special_methods (PyStr s) = [''__add__'', ''__len__'', ''__mul__'']"
| "special_methods PyNone = []"

definition hasattr :: "pyobj \<Rightarrow> string \<Rightarrow> bool" where
  "hasattr x name = (name \<in> set (special_methods x))"

definition isnumber :: "pyobj \<Rightarrow> bool" where
  "isnumber x = hasattr x ''__int__''"

text \<open>
  The right operand of \<^verbatim>\<open>b * x\<close> for a float \<^verbatim>\<open>b\<close>: an integer is converted to the
  nearest float and raises when it is out of range, a truth value counts as one or zero.
\<close>

fun as_float :: "pyobj \<Rightarrow> error + double" where
  "as_float (PyInt i) =
     (case round_double (of_int i) of Finite r \<Rightarrow> Inr (Finite r) | _ \<Rightarrow> Inl OverflowError)"
| "as_float (PyFloat d) = Inr d"
| "as_float (PyBool b) = Inr (Finite (if b then 1 else 0))"
| "as_float (PyStr s) = Inl TypeError"
| "as_float PyNone = Inl TypeError"

definition forecast :: "pyobj \<Rightarrow> double list \<Rightarrow> double list \<Rightarrow> error + double" where
  "forecast x known_y known_x =
     (if isnumber x = False then Inl (Exception ''X must be a numeric value.'')
      else and_then (varp known_x) (\<lambda>varx.
           if varx = Finite 0
             then Inl (Exception ''The variance of known_x cannot equal zero.'')
           else and_then (slope known_y known_x) (\<lambda>b.
                and_then (intercept known_y known_x) (\<lambda>a.
                and_then (as_float x) (\<lambda>xf.
                Inr (float_add a (float_mul b xf)))))))"

section \<open>The empty sequence in a required position\<close>

lemma average_Nil: "average [] = Inl (Exception ''One or more data points must exist.'')"
  by (simp add: average_def)

lemma average_Cons: "average (x # xs) = Inr (ieee_div (py_sum (x # xs)) (py_float (Suc (length xs))))"
  by (simp add: average_def float_div_def py_float_def)

lemma raises_Inl: "raises P (Inl e) = P e"
  by (simp add: raises_def)

lemma and_then_Inl: "and_then (Inl e) f = Inl e"
  by (simp add: and_then_def)

lemma and_then_Inr: "and_then (Inr v) f = f v"
  by (simp add: and_then_def)

lemma variance_Nil: "variance [] s = Inl (Exception ''One or more data points must exist.'')"
  by (simp add: variance_def)

lemma sumdev_empty:
  "array1 = [] \<or> array2 = [] \<Longrightarrow> sumdev array1 array2 = Inl (Exception ''Arguments cannot be empty.'')"
  by (auto simp add: sumdev_def)

lemma covar_empty:
  "array1 = [] \<or> array2 = [] \<Longrightarrow> covar array1 array2 = Inl (Exception ''Arguments cannot be empty.'')"
  by (auto simp add: covar_def)

lemma correl_empty:
  "array1 = [] \<or> array2 = [] \<Longrightarrow> correl array1 array2 = Inl (Exception ''Arguments cannot be empty.'')"
  by (auto simp add: correl_def)

lemma slope_empty:
  "known_y = [] \<or> known_x = [] \<Longrightarrow> slope known_y known_x = Inl (Exception ''Arguments cannot be empty.'')"
  by (auto simp add: slope_def sumdev_empty and_then_Inl)

lemma intercept_empty:
  "known_y = [] \<or> known_x = [] \<Longrightarrow> raises EmptyInputError (intercept known_y known_x)"
  by (cases known_y)
    (auto simp add: intercept_def average_Nil average_Cons and_then_Inl and_then_Inr
      raises_Inl EmptyInputError_def)

text \<open>
  C6. Each function that needs a non-empty sequence raises the empty-input exception when
  a sequence it requires is empty, whatever the other argument is.
\<close>

theorem empty_input_raises:
  "raises EmptyInputError (average [])
   \<and> raises EmptyInputError (avgdev [])
   \<and> raises EmptyInputError (devsq [])
   \<and> raises EmptyInputError (variance [] is_sample)
   \<and> raises EmptyInputError (var [])
   \<and> raises EmptyInputError (varp [])
   \<and> raises EmptyInputError (standard_deviation [] is_sample)
   \<and> raises EmptyInputError (stdev [])
   \<and> raises EmptyInputError (stdevp [])
   \<and> raises EmptyInputError (sumdev [] ys) \<and> raises EmptyInputError (sumdev xs [])
   \<and> raises EmptyInputError (covar [] ys) \<and> raises EmptyInputError (covar xs [])
   \<and> raises EmptyInputError (correl [] ys) \<and> raises EmptyInputError (correl xs [])
   \<and> raises EmptyInputError (pearson [] ys) \<and> raises EmptyInputError (pearson xs [])
   \<and> raises EmptyInputError (rsq [] ys) \<and> raises EmptyInputError (rsq xs [])
   \<and> raises EmptyInputError (slope [] ys) \<and> raises EmptyInputError (slope xs [])
   \<and> raises EmptyInputError (intercept [] ys) \<and> raises EmptyInputError (intercept xs [])"
  by (simp add: average_Nil variance_Nil avgdev_def devsq_def var_def varp_def
      standard_deviation_def stdev_def stdevp_def pearson_def rsq_def
      sumdev_empty covar_empty correl_empty slope_empty intercept_empty
      and_then_Inl raises_Inl EmptyInputError_def)

section \<open>Sequences of different lengths\<close>

text \<open>
  C7. Two non-empty sequences of different lengths make \<^verbatim>\<open>sumdev\<close>, \<^verbatim>\<open>covar\<close>,
  \<^verbatim>\<open>correl\<close> and \<^verbatim>\<open>slope\<close> raise the length-mismatch exception.
\<close>

theorem length_mismatch_raises:
  assumes "xs \<noteq> []" and "ys \<noteq> []" and "length xs \<noteq> length ys"
  shows "raises LengthMismatchError (sumdev xs ys)
       \<and> raises LengthMismatchError (covar xs ys)
       \<and> raises LengthMismatchError (correl xs ys)
       \<and> raises LengthMismatchError (slope xs ys)"
proof -
  have ne: "length ys \<noteq> length xs"
    using assms(3) by simp
  have "sumdev xs ys = Inl (Exception ''Arguments must have the same number of data points.'')"
    using assms by (simp add: sumdev_def)
  moreover have "sumdev ys xs = Inl (Exception ''Arguments must have the same number of data points.'')"
    using assms ne by (simp add: sumdev_def)
  moreover have "covar xs ys = Inl (Exception ''Arguments must have the same number of data points.'')"
    using assms by (simp add: covar_def)
  moreover have "correl xs ys = Inl (Exception ''Arguments must have the same number of data points.'')"
    using assms by (simp add: correl_def)
  ultimately show ?thesis
    by (simp add: slope_def and_then_Inl raises_Inl LengthMismatchError_def)
qed

theorem length_mismatch_raises_witness:
  "raises LengthMismatchError (sumdev [Finite 1, Finite 2] [Finite 1, Finite 2, Finite 3])
   \<and> raises LengthMismatchError (covar [Finite 1, Finite 2] [Finite 1, Finite 2, Finite 3])
   \<and> raises LengthMismatchError (correl [Finite 1, Finite 2] [Finite 1, Finite 2, Finite 3])
   \<and> raises LengthMismatchError (slope [Finite 1, Finite 2] [Finite 1, Finite 2, Finite 3])"
  using length_mismatch_raises [of "[Finite 1, Finite 2]" "[Finite 1, Finite 2, Finite 3]"]
  by simp

text \<open>
  C9. In \<^verbatim>\<open>sumdev\<close>, \<^verbatim>\<open>covar\<close> and \<^verbatim>\<open>correl\<close> the test for an empty argument comes
  first: when one sequence is empty and the lengths differ, the exception is the
  empty-input one and not the length-mismatch one.
\<close>

theorem empty_check_precedes_length_check:
  assumes "xs = [] \<or> ys = []" and "length xs \<noteq> length ys"
  shows "raises EmptyInputError (sumdev xs ys) \<and> \<not> raises LengthMismatchError (sumdev xs ys)
       \<and> raises EmptyInputError (covar xs ys) \<and> \<not> raises LengthMismatchError (covar xs ys)
       \<and> raises EmptyInputError (correl xs ys) \<and> \<not> raises LengthMismatchError (correl xs ys)"
  using assms(1)
  by (simp add: sumdev_empty covar_empty correl_empty raises_Inl
      EmptyInputError_def LengthMismatchError_def)

theorem empty_check_precedes_length_check_witness:
  "raises EmptyInputError (sumdev [] [Finite 1, Finite 2])
   \<and> \<not> raises LengthMismatchError (sumdev [] [Finite 1, Finite 2])
   \<and> raises EmptyInputError (covar [] [Finite 1, Finite 2])
   \<and> \<not> raises LengthMismatchError (covar [] [Finite 1, Finite 2])
   \<and> raises EmptyInputError (correl [] [Finite 1, Finite 2])
   \<and> \<not> raises LengthMismatchError (correl [] [Finite 1, Finite 2])"
  using empty_check_precedes_length_check [of "[]" "[Finite 1, Finite 2]"]
  by simp

section \<open>Evaluating the model\<close>

lemmas float_eval =
  round_double_def round_pos_def in_range_def round_to_ulp_def round_half_even_def
  nearest_even_def ilog2_def ilog2_below_def pow2_def bitlen.simps
  sqrt_double_def sqrt_scaled_def sqrt_round_def isqrt.simps isqrt_step_def
  float_div_def float_sub_def py_float_def py_sum_def and_then_def

lemma average_123: "average [Finite 1, Finite 2, Finite 3] = Inr (Finite 2)"
  by (simp add: average_def float_eval)

lemma average_246: "average [Finite 2, Finite 4, Finite 6] = Inr (Finite 4)"
  by (simp add: average_def float_eval)

lemma devsq_123: "devsq [Finite 1, Finite 2, Finite 3] = Inr (Finite 2)"
  by (simp add: devsq_def average_123 float_eval)

lemma sumdev_123_246:
  "sumdev [Finite 1, Finite 2, Finite 3] [Finite 2, Finite 4, Finite 6] = Inr (Finite 4)"
  by (simp add: sumdev_def average_123 average_246 float_eval)

lemma slope_246_123:
  "slope [Finite 2, Finite 4, Finite 6] [Finite 1, Finite 2, Finite 3] = Inr (Finite 2)"
  by (simp add: slope_def sumdev_123_246 devsq_123 float_eval)

lemma intercept_246_123:
  "intercept [Finite 2, Finite 4, Finite 6] [Finite 1, Finite 2, Finite 3] = Inr (Finite 0)"
  by (simp add: intercept_def slope_246_123 average_123 average_246 float_eval)

lemma two_thirds: "round_double (2 / 3) = Finite (6004799503160661 / 9007199254740992)"
  by (simp add: float_eval)

lemma varp_123:
  "varp [Finite 1, Finite 2, Finite 3] = Inr (Finite (6004799503160661 / 9007199254740992))"
  by (simp add: varp_def variance_def average_123 devsq_123 float_div_def py_float_def
      and_then_def two_thirds)

lemma is_double_small: "is_double (Finite 1)" "is_double (Finite 2)" "is_double (Finite 3)"
    "is_double (Finite 4)" "is_double (Finite 5)" "is_double (Finite 6)"
  by (simp_all add: float_eval)

text \<open>
  C2. The regression line through (1, 2), (2, 4), (3, 6): slope 2.0, intercept 0.0, and
  the forecast at 4 is 8.0; the slope is \<^verbatim>\<open>sumdev(known_x, known_y) / devsq(known_x)\<close> and
  the intercept \<^verbatim>\<open>average(known_y) - slope * average(known_x)\<close>.
\<close>

theorem regression_example:
  "slope [Finite 2, Finite 4, Finite 6] [Finite 1, Finite 2, Finite 3] = Inr (Finite 2)
   \<and> intercept [Finite 2, Finite 4, Finite 6] [Finite 1, Finite 2, Finite 3] = Inr (Finite 0)
   \<and> forecast (PyInt 4) [Finite 2, Finite 4, Finite 6] [Finite 1, Finite 2, Finite 3]
       = Inr (Finite 8)
   \<and> slope known_y known_x
       = and_then (sumdev known_x known_y) (\<lambda>s. and_then (devsq known_x) (float_div s))
   \<and> intercept known_y known_x
       = and_then (average known_y) (\<lambda>muy. and_then (average known_x) (\<lambda>mux.
         and_then (slope known_y known_x) (\<lambda>b. Inr (float_sub muy (float_mul b mux)))))"
proof -
  have "forecast (PyInt 4) [Finite 2, Finite 4, Finite 6] [Finite 1, Finite 2, Finite 3]
      = Inr (Finite 8)"
    by (simp add: forecast_def isnumber_def hasattr_def varp_123 slope_246_123
        intercept_246_123 float_eval)
  moreover have "slope known_y known_x
      = and_then (sumdev known_x known_y) (\<lambda>s. and_then (devsq known_x) (float_div s))"
    by (simp add: slope_def)
  moreover have "intercept known_y known_x
      = and_then (average known_y) (\<lambda>muy. and_then (average known_x) (\<lambda>mux.
        and_then (slope known_y known_x) (\<lambda>b. Inr (float_sub muy (float_mul b mux)))))"
    by (simp add: intercept_def)
  ultimately show ?thesis
    using slope_246_123 intercept_246_123 by blast
qed

section \<open>Which exceptions each function can raise\<close>

lemma average_nonempty:
  "data \<noteq> [] \<Longrightarrow> average data = Inr (ieee_div (py_sum data) (py_float (length data)))"
  by (simp add: average_def float_div_def py_float_def)

lemma average_errors:
  "average data = Inl e \<Longrightarrow> e = Exception ''One or more data points must exist.''"
  by (cases "data = []") (simp_all add: average_Nil average_nonempty)

lemma float_div_errors: "float_div x y = Inl e \<Longrightarrow> e = ZeroDivisionError"
  by (simp add: float_div_def split: if_splits)

lemma float_sq_errors: "float_sq x = Inl e \<Longrightarrow> e = OverflowError"
  by (cases x) (simp_all split: double.splits)

lemma math_sqrt_errors: "math_sqrt x = Inl e \<Longrightarrow> e = ValueError"
  by (cases x) (simp_all split: if_splits)

lemma devsq_loop_errors: "devsq_loop mu tot xs = Inl e \<Longrightarrow> e = OverflowError"
  by (induction xs arbitrary: tot) (auto split: sum.splits dest: float_sq_errors)

lemma and_then_errors:
  "and_then m f = Inl e \<Longrightarrow> m = Inl e \<or> (\<exists>v. m = Inr v \<and> f v = Inl e)"
  by (cases m) (simp_all add: and_then_def)

lemma devsq_errors:
  "devsq data = Inl e \<Longrightarrow>
     e = Exception ''One or more data points must exist.'' \<or> e = OverflowError"
  unfolding devsq_def
  by (auto dest!: and_then_errors dest: average_errors devsq_loop_errors)

lemma variance_errors:
  "variance data is_sample = Inl e \<Longrightarrow>
     e = Exception ''One or more data points must exist.'' \<or> e = OverflowError
     \<or> e = ZeroDivisionError"
  unfolding variance_def Let_def
  by (auto dest!: and_then_errors dest: average_errors devsq_errors float_div_errors
      split: if_splits)

lemma standard_deviation_errors:
  "standard_deviation data is_sample = Inl e \<Longrightarrow>
     e = Exception ''One or more data points must exist.'' \<or> e = OverflowError
     \<or> e = ZeroDivisionError \<or> e = ValueError"
  unfolding standard_deviation_def var_def varp_def
  by (auto dest!: and_then_errors dest: variance_errors math_sqrt_errors split: if_splits)

lemma sumdev_errors:
  "sumdev array1 array2 = Inl e \<Longrightarrow>
     e = Exception ''Arguments cannot be empty.''
     \<or> e = Exception ''Arguments must have the same number of data points.''"
  unfolding sumdev_def Let_def
  by (auto simp add: average_nonempty dest!: and_then_errors split: if_splits)

lemma sumdev_returns:
  "array1 \<noteq> [] \<Longrightarrow> length array1 = length array2 \<Longrightarrow> \<exists>s. sumdev array1 array2 = Inr s"
  by (cases array2) (auto simp add: sumdev_def average_nonempty and_then_Inr)

lemma covar_errors:
  "covar array1 array2 = Inl e \<Longrightarrow>
     e = Exception ''Arguments cannot be empty.''
     \<or> e = Exception ''Arguments must have the same number of data points.''
     \<or> e = ZeroDivisionError"
  unfolding covar_def Let_def
  by (auto dest!: and_then_errors dest: sumdev_errors float_div_errors split: if_splits)

lemma slope_errors:
  "slope known_y known_x = Inl e \<Longrightarrow>
     e = Exception ''Arguments cannot be empty.''
     \<or> e = Exception ''Arguments must have the same number of data points.''
     \<or> e = Exception ''One or more data points must exist.''
     \<or> e = OverflowError \<or> e = ZeroDivisionError"
  unfolding slope_def
  by (auto dest!: and_then_errors dest: sumdev_errors devsq_errors float_div_errors)

lemma intercept_errors:
  "intercept known_y known_x = Inl e \<Longrightarrow>
     e = Exception ''Arguments cannot be empty.''
     \<or> e = Exception ''Arguments must have the same number of data points.''
     \<or> e = Exception ''One or more data points must exist.''
     \<or> e = OverflowError \<or> e = ZeroDivisionError"
  unfolding intercept_def
  by (auto dest!: and_then_errors dest: average_errors slope_errors)

section \<open>Variance and average\<close>

lemma variance_nonempty:
  "data \<noteq> [] \<Longrightarrow>
     variance data is_sample =
       and_then (devsq data) (\<lambda>ds. float_div ds (py_float (if is_sample then length data - 1 else length data)))"
  by (simp add: variance_def average_nonempty and_then_Inr)

text \<open>
  C3. On a non-empty sequence of length \<open>n\<close> the variance is \<^verbatim>\<open>devsq(data) / (n - 1)\<close> for
  a sample and \<^verbatim>\<open>devsq(data) / n\<close> for a population, and the sample variance of two or
  more points divides by a number that is not zero; the average is \<^verbatim>\<open>sum(data) / n\<close>.
  For 1, 2, 3 the sample variance is 1.0, the population variance is the float 2.0 / 3.0
  and the average is 2.0.
\<close>

theorem variance_formula:
  assumes "data \<noteq> []"
  shows "variance data True
           = and_then (devsq data) (\<lambda>ds. float_div ds (py_float (length data - 1)))
       \<and> variance data False
           = and_then (devsq data) (\<lambda>ds. float_div ds (py_float (length data)))
       \<and> (2 \<le> length data \<longrightarrow>
            (\<forall>ds. devsq data = Inr ds \<longrightarrow>
               variance data True = Inr (ieee_div ds (py_float (length data - 1)))))
       \<and> average data = float_div (py_sum data) (py_float (length data))
       \<and> variance [Finite 1, Finite 2, Finite 3] True = Inr (Finite 1)
       \<and> variance [Finite 1, Finite 2, Finite 3] False = float_div (Finite 2) (Finite 3)
       \<and> float_div (Finite 2) (Finite 3)
           = Inr (Finite (6004799503160661 / 9007199254740992))
       \<and> average [Finite 1, Finite 2, Finite 3] = Inr (Finite 2)"
proof -
  have sample: "variance data True
      = and_then (devsq data) (\<lambda>ds. float_div ds (py_float (length data - 1)))"
    using assms by (simp add: variance_nonempty)
  have population: "variance data False
      = and_then (devsq data) (\<lambda>ds. float_div ds (py_float (length data)))"
    using assms by (simp add: variance_nonempty)
  have two: "2 \<le> length data \<longrightarrow>
      (\<forall>ds. devsq data = Inr ds \<longrightarrow>
         variance data True = Inr (ieee_div ds (py_float (length data - 1))))"
    by (auto simp add: sample and_then_Inr float_div_def py_float_def)
  have mean: "average data = float_div (py_sum data) (py_float (length data))"
    using assms by (simp add: average_def)
  have v1: "variance [Finite 1, Finite 2, Finite 3] True = Inr (Finite 1)"
    by (simp add: variance_nonempty devsq_123 float_eval)
  have v2: "variance [Finite 1, Finite 2, Finite 3] False = float_div (Finite 2) (Finite 3)"
    by (simp add: variance_nonempty devsq_123 and_then_Inr py_float_def)
  have q: "float_div (Finite 2) (Finite 3)
      = Inr (Finite (6004799503160661 / 9007199254740992))"
    by (simp add: float_div_def two_thirds)
  from sample population two mean v1 v2 q average_123 show ?thesis
    by blast
qed

theorem variance_formula_witness:
  "[Finite 1, Finite 3] \<noteq> []
   \<and> 2 \<le> length [Finite 1, Finite 3]
   \<and> devsq [Finite 1, Finite 3] = Inr (Finite 2)
   \<and> variance [Finite 1, Finite 3] True = Inr (Finite 2)
   \<and> variance [Finite 1, Finite 3] False = Inr (Finite 1)
   \<and> average [Finite 1, Finite 3] = Inr (Finite 2)"
proof -
  have ne: "[Finite 1, Finite 3] \<noteq> []"
    by simp
  have a: "average [Finite 1, Finite 3] = Inr (Finite 2)"
    by (simp add: average_def float_eval)
  have d: "devsq [Finite 1, Finite 3] = Inr (Finite 2)"
    by (simp add: devsq_def a float_eval)
  from variance_formula [OF ne] d a show ?thesis
    by (simp add: float_eval)
qed

section \<open>The numeric test of forecast\<close>

lemma forecast_not_number:
  "\<not> isnumber x \<Longrightarrow> forecast x known_y known_x = Inl (Exception ''X must be a numeric value.'')"
  by (simp add: forecast_def)

lemma forecast_number_errors:
  assumes "isnumber x" and "forecast x known_y known_x = Inl e"
  shows "e \<noteq> Exception ''X must be a numeric value.''"
proof -
  have "as_float x = Inl e \<Longrightarrow> e = OverflowError \<or> e = TypeError"
    by (cases x) (simp_all split: double.splits)
  with assms show ?thesis
    unfolding forecast_def varp_def
    by (auto dest!: and_then_errors dest: variance_errors slope_errors intercept_errors
        split: if_splits)
qed

text \<open>
  C10. \<^verbatim>\<open>isnumber\<close> is the test for an \<^verbatim>\<open>__int__\<close> attribute. A string fails it, so
  \<^verbatim>\<open>forecast\<close> raises the not-a-number exception; a truth value passes it and
  \<^verbatim>\<open>forecast\<close> goes on to compute with it as one or zero.
\<close>

theorem isnumber_is_int_attribute:
  "(isnumber x \<longleftrightarrow> hasattr x ''__int__'')
   \<and> raises NotANumberError (forecast (PyStr s) known_y known_x)
   \<and> isnumber (PyBool b)
   \<and> \<not> raises NotANumberError (forecast (PyBool b) known_y known_x)
   \<and> forecast (PyBool True) known_y known_x = forecast (PyFloat (Finite 1)) known_y known_x
   \<and> forecast (PyBool False) known_y known_x = forecast (PyFloat (Finite 0)) known_y known_x
   \<and> forecast (PyBool True) [Finite 2, Finite 4, Finite 6] [Finite 1, Finite 2, Finite 3]
       = Inr (Finite 2)"
proof -
  have str: "raises NotANumberError (forecast (PyStr s) known_y known_x)"
    by (simp add: forecast_not_number isnumber_def hasattr_def raises_Inl NotANumberError_def)
  have bool: "isnumber (PyBool b)"
    by (simp add: isnumber_def hasattr_def)
  have accepted: "\<not> raises NotANumberError (forecast (PyBool b) known_y known_x)"
    using forecast_number_errors [OF bool, of known_y known_x]
    by (cases "forecast (PyBool b) known_y known_x")
      (auto simp add: raises_def NotANumberError_def)
  have t: "forecast (PyBool True) known_y known_x = forecast (PyFloat (Finite 1)) known_y known_x"
    by (simp add: forecast_def isnumber_def hasattr_def cong: if_cong)
  have f: "forecast (PyBool False) known_y known_x = forecast (PyFloat (Finite 0)) known_y known_x"
    by (simp add: forecast_def isnumber_def hasattr_def cong: if_cong)
  have ex: "forecast (PyBool True) [Finite 2, Finite 4, Finite 6] [Finite 1, Finite 2, Finite 3]
      = Inr (Finite 2)"
    by (simp add: forecast_def isnumber_def hasattr_def varp_123 slope_246_123
        intercept_246_123 float_eval)
  from str bool accepted t f ex show ?thesis
    by (simp add: isnumber_def)
qed

section \<open>Denominators that are zero\<close>

lemma round_double_zero: "round_double 0 = Finite 0"
  by (simp add: round_double_def)

lemma float_div_zero: "float_div x (Finite 0) = Inl ZeroDivisionError"
  by (simp add: float_div_def)

lemma variance_single:
  assumes "is_double x"
  shows "variance [x] True = Inl ZeroDivisionError"
proof (cases x)
  case (Finite q)
  with assms have r: "round_double q = Finite q"
    by simp
  have a: "average [Finite q] = Inr (Finite q)"
    by (simp add: average_def py_sum_def py_float_def float_div_def r)
  have d: "devsq [Finite q] = Inr (Finite 0)"
    by (simp add: devsq_def a and_then_Inr float_sub_def round_double_zero)
  show ?thesis
    by (simp add: Finite variance_def a d and_then_Inr py_float_def float_div_zero)
next
  case PosInf
  then show ?thesis
    by (simp add: variance_def devsq_def average_def py_sum_def py_float_def float_div_def
        float_sub_def and_then_def)
next
  case NegInf
  then show ?thesis
    by (simp add: variance_def devsq_def average_def py_sum_def py_float_def float_div_def
        float_sub_def and_then_def)
next
  case NaN
  then show ?thesis
    by (simp add: variance_def devsq_def average_def py_sum_def py_float_def float_div_def
        float_sub_def and_then_def)
qed

lemma slope_zero_devsq:
  assumes "known_x \<noteq> []" and "length known_y = length known_x"
    and "devsq known_x = Inr (Finite 0)"
  shows "slope known_y known_x = Inl ZeroDivisionError"
proof -
  obtain s where "sumdev known_x known_y = Inr s"
    using sumdev_returns [of known_x known_y] assms(1,2) by auto
  then show ?thesis
    by (simp add: slope_def and_then_Inr assms(3) float_div_zero)
qed

lemma average_555: "average [Finite 5, Finite 5, Finite 5] = Inr (Finite 5)"
  by (simp add: average_def float_eval)

lemma devsq_555: "devsq [Finite 5, Finite 5, Finite 5] = Inr (Finite 0)"
  by (simp add: devsq_def average_555 float_eval)

text \<open>
  C1, as the code has it. A float division by zero raises \<^verbatim>\<open>ZeroDivisionError\<close> in Python;
  it does not return an infinity or a NaN. So the sample variance of a single float raises
  it, and so does the slope whenever \<^verbatim>\<open>devsq(known_x)\<close> is zero.
\<close>

theorem zero_denominator_raises:
  assumes "is_double x"
    and "known_x \<noteq> []" and "length known_y = length known_x"
    and "devsq known_x = Inr (Finite 0)"
  shows "variance [x] True = Inl ZeroDivisionError
       \<and> slope known_y known_x = Inl ZeroDivisionError"
  using assms by (simp add: variance_single slope_zero_devsq)

theorem zero_denominator_raises_witness:
  "is_double (Finite 5)
   \<and> [Finite 5, Finite 5, Finite 5] \<noteq> []
   \<and> length [Finite 1, Finite 2, Finite 3] = length [Finite 5, Finite 5, Finite 5]
   \<and> devsq [Finite 5, Finite 5, Finite 5] = Inr (Finite 0)
   \<and> variance [Finite 5] True = Inl ZeroDivisionError
   \<and> slope [Finite 1, Finite 2, Finite 3] [Finite 5, Finite 5, Finite 5]
       = Inl ZeroDivisionError"
proof -
  have x: "is_double (Finite 5)"
    by (simp add: float_eval)
  have ne: "[Finite 5, Finite 5, Finite 5] \<noteq> []"
    by simp
  have len: "length [Finite 1, Finite 2, Finite 3] = length [Finite 5, Finite 5, Finite 5]"
    by simp
  from zero_denominator_raises [OF x ne len devsq_555] x ne len devsq_555 show ?thesis
    by blast
qed

text \<open>
  The claim C1 as stated fails: neither call returns an infinity or a NaN, both raise.
\<close>

theorem zero_denominator_counterexample:
  "variance [Finite 5] True = Inl ZeroDivisionError
   \<and> variance [Finite 5] True \<notin> {Inr PosInf, Inr NegInf, Inr NaN}
   \<and> slope [Finite 1, Finite 2, Finite 3] [Finite 5, Finite 5, Finite 5]
       = Inl ZeroDivisionError
   \<and> slope [Finite 1, Finite 2, Finite 3] [Finite 5, Finite 5, Finite 5]
       \<notin> {Inr PosInf, Inr NegInf, Inr NaN}"
proof -
  have "is_double (Finite 5)"
    by (simp add: float_eval)
  then have v: "variance [Finite 5] True = Inl ZeroDivisionError"
    by (rule variance_single)
  have s: "slope [Finite 1, Finite 2, Finite 3] [Finite 5, Finite 5, Finite 5]
      = Inl ZeroDivisionError"
    by (simp add: slope_zero_devsq devsq_555)
  show ?thesis
    by (simp add: v s)
qed

section \<open>The zero-variance guard of forecast\<close>

lemma varp_555: "varp [Finite 5, Finite 5, Finite 5] = Inr (Finite 0)"
  by (simp add: varp_def variance_def average_555 devsq_555 float_eval)

lemma average_tenths:
  "average [Finite (3602879701896397 / 36028797018963968),
            Finite (3602879701896397 / 36028797018963968),
            Finite (3602879701896397 / 36028797018963968)]
     = Inr (Finite (7205759403792795 / 72057594037927936))"
  by (simp add: average_def float_eval)

lemma devsq_tenths:
  "devsq [Finite (3602879701896397 / 36028797018963968),
          Finite (3602879701896397 / 36028797018963968),
          Finite (3602879701896397 / 36028797018963968)]
     = Inr (Finite (3 / 2 ^ 112))"
  by (simp add: devsq_def average_tenths float_eval)

lemma varp_tenths:
  "varp [Finite (3602879701896397 / 36028797018963968),
         Finite (3602879701896397 / 36028797018963968),
         Finite (3602879701896397 / 36028797018963968)]
     = Inr (Finite (1 / 2 ^ 112))"
  by (simp add: varp_def variance_def average_tenths devsq_tenths float_eval)

lemma sumdev_tenths:
  "sumdev [Finite (3602879701896397 / 36028797018963968),
           Finite (3602879701896397 / 36028797018963968),
           Finite (3602879701896397 / 36028797018963968)]
          [Finite 1, Finite 2, Finite 3]
     = Inr (Finite 0)"
  by (simp add: sumdev_def average_tenths average_123 float_eval)

lemma slope_tenths:
  "slope [Finite 1, Finite 2, Finite 3]
         [Finite (3602879701896397 / 36028797018963968),
          Finite (3602879701896397 / 36028797018963968),
          Finite (3602879701896397 / 36028797018963968)]
     = Inr (Finite 0)"
  by (simp add: slope_def sumdev_tenths devsq_tenths float_eval)

lemma intercept_tenths:
  "intercept [Finite 1, Finite 2, Finite 3]
         [Finite (3602879701896397 / 36028797018963968),
          Finite (3602879701896397 / 36028797018963968),
          Finite (3602879701896397 / 36028797018963968)]
     = Inr (Finite 2)"
  by (simp add: intercept_def slope_tenths average_tenths average_123 float_eval)

text \<open>
  C5, as the code has it. \<^verbatim>\<open>forecast\<close> tests \<^verbatim>\<open>varp(known_x) == 0\<close> before it computes the
  slope and the intercept: whenever that variance evaluates to zero, a numeric \<^verbatim>\<open>x\<close> gets
  the zero-variance exception, whatever \<^verbatim>\<open>known_y\<close> is.
\<close>

theorem forecast_zero_variance:
  assumes "isnumber x" and "varp known_x = Inr (Finite 0)"
  shows "forecast x known_y known_x
           = Inl (Exception ''The variance of known_x cannot equal zero.'')
       \<and> raises ZeroVarianceError (forecast x known_y known_x)"
  using assms by (simp add: forecast_def and_then_Inr raises_Inl ZeroVarianceError_def)

theorem forecast_zero_variance_witness:
  "isnumber (PyInt 4)
   \<and> varp [Finite 5, Finite 5, Finite 5] = Inr (Finite 0)
   \<and> raises ZeroVarianceError (forecast (PyInt 4) [Finite 1, Finite 2] [Finite 5, Finite 5, Finite 5])
   \<and> raises LengthMismatchError (slope [Finite 1, Finite 2] [Finite 5, Finite 5, Finite 5])
   \<and> raises ZeroVarianceError (forecast (PyInt 4) [Finite 1, Finite 2, Finite 3] [Finite 5, Finite 5, Finite 5])
   \<and> slope [Finite 1, Finite 2, Finite 3] [Finite 5, Finite 5, Finite 5] = Inl ZeroDivisionError"
proof -
  have n: "isnumber (PyInt 4)"
    by (simp add: isnumber_def hasattr_def)
  have s: "raises LengthMismatchError (slope [Finite 1, Finite 2] [Finite 5, Finite 5, Finite 5])"
    by (simp add: slope_def sumdev_def and_then_Inl raises_Inl LengthMismatchError_def)
  have z: "slope [Finite 1, Finite 2, Finite 3] [Finite 5, Finite 5, Finite 5] = Inl ZeroDivisionError"
    by (simp add: slope_zero_devsq devsq_555)
  from forecast_zero_variance [OF n varp_555, of "[Finite 1, Finite 2]"]
    forecast_zero_variance [OF n varp_555, of "[Finite 1, Finite 2, Finite 3]"]
    n varp_555 s z
  show ?thesis
    by blast
qed

text \<open>
  The claim C5 as stated fails. The mean of three copies of the float 0.1 is rounded to
  the next float above 0.1, so the variance of that constant sequence is \<open>2 ^ - 112\<close> and
  not zero, and \<^verbatim>\<open>forecast\<close> returns a value; the empty sequence, which is constant too,
  gets the empty-input exception.
\<close>

theorem forecast_constant_counterexample:
  "is_double (Finite (3602879701896397 / 36028797018963968))
   \<and> forecast (PyInt 4) [Finite 1, Finite 2, Finite 3]
        [Finite (3602879701896397 / 36028797018963968),
         Finite (3602879701896397 / 36028797018963968),
         Finite (3602879701896397 / 36028797018963968)]
       = Inr (Finite 2)
   \<and> \<not> raises ZeroVarianceError
        (forecast (PyInt 4) [Finite 1, Finite 2, Finite 3]
          [Finite (3602879701896397 / 36028797018963968),
           Finite (3602879701896397 / 36028797018963968),
           Finite (3602879701896397 / 36028797018963968)])
   \<and> forecast (PyInt 4) [Finite 1, Finite 2, Finite 3] []
       = Inl (Exception ''One or more data points must exist.'')
   \<and> \<not> raises ZeroVarianceError (forecast (PyInt 4) [Finite 1, Finite 2, Finite 3] [])"
proof -
  have d: "is_double (Finite (3602879701896397 / 36028797018963968))"
    by (simp add: float_eval)
  have f: "forecast (PyInt 4) [Finite 1, Finite 2, Finite 3]
        [Finite (3602879701896397 / 36028797018963968),
         Finite (3602879701896397 / 36028797018963968),
         Finite (3602879701896397 / 36028797018963968)]
       = Inr (Finite 2)"
    by (simp add: forecast_def isnumber_def hasattr_def varp_tenths slope_tenths
        intercept_tenths float_eval)
  have e: "forecast (PyInt 4) [Finite 1, Finite 2, Finite 3] []
       = Inl (Exception ''One or more data points must exist.'')"
    by (simp add: forecast_def isnumber_def hasattr_def varp_def variance_Nil and_then_Inl)
  have nf: "\<not> raises ZeroVarianceError
        (forecast (PyInt 4) [Finite 1, Finite 2, Finite 3]
          [Finite (3602879701896397 / 36028797018963968),
           Finite (3602879701896397 / 36028797018963968),
           Finite (3602879701896397 / 36028797018963968)])"
    by (simp add: f raises_def)
  have ne: "\<not> raises ZeroVarianceError (forecast (PyInt 4) [Finite 1, Finite 2, Finite 3] [])"
    by (simp add: e raises_def ZeroVarianceError_def)
  from d f nf e ne show ?thesis
    by blast
qed

section \<open>Correlation\<close>

lemma float_sq_mul: "float_sq d = Inr r \<Longrightarrow> float_mul d d = r"
  by (cases d) (auto split: double.splits)

lemma devsq_loop_sumdev:
  "devsq_loop mu tot xs = Inr r \<Longrightarrow>
     foldl (\<lambda>tot (x, y). float_add tot (float_mul (float_sub x mu) (float_sub y mu)))
       tot (zip xs xs) = r"
proof (induction xs arbitrary: tot)
  case Nil
  then show ?case by simp
next
  case (Cons x xs)
  then show ?case
    by (auto split: sum.splits dest: float_sq_mul)
qed

lemma sumdev_self: "devsq a = Inr ds \<Longrightarrow> sumdev a a = Inr ds"
proof -
  assume d: "devsq a = Inr ds"
  then have ne: "a \<noteq> []"
    by (auto simp add: devsq_def average_Nil and_then_Inl)
  from d ne have "devsq_loop (ieee_div (py_sum a) (py_float (length a))) (Finite 0) a = Inr ds"
    by (simp add: devsq_def average_nonempty and_then_Inr)
  then show ?thesis
    using ne by (simp add: sumdev_def average_nonempty and_then_Inr devsq_loop_sumdev)
qed

lemma varp_nonempty: "varp a = Inr v \<Longrightarrow> a \<noteq> []"
  by (auto simp add: varp_def variance_Nil)

lemma covar_self:
  assumes "varp a = Inr v"
  shows "covar a a = Inr v"
proof -
  have ne: "a \<noteq> []"
    using assms by (rule varp_nonempty)
  with assms obtain ds where d: "devsq a = Inr ds"
    and q: "float_div ds (py_float (length a)) = Inr v"
    by (cases "devsq a") (auto simp add: varp_def variance_nonempty and_then_def)
  show ?thesis
    using ne by (simp add: covar_def sumdev_self [OF d] and_then_Inr q)
qed

lemma correl_steps:
  assumes "array1 \<noteq> []" and "length array1 = length array2"
  shows "correl array1 array2 =
           and_then (stdevp array1) (\<lambda>stdev1.
           and_then (stdevp array2) (\<lambda>stdev2.
           if stdev1 = Finite 0 \<or> stdev2 = Finite 0
             then Inl (Exception ''Standard deviation of an argument cannot be zero.'')
           else and_then (covar array1 array2) (\<lambda>c.
                float_div c (float_mul stdev1 stdev2))))"
proof -
  have "array2 \<noteq> []"
    using assms by auto
  with assms show ?thesis
    by (simp add: correl_def Let_def)
qed

lemma round_double_one: "round_double 1 = Finite 1"
  by (simp add: float_eval)

text \<open>
  C8, as the code has it. The correlation of a sequence with itself is its population
  variance \<open>v\<close> divided by the product of the standard deviation \<open>s\<close> with itself. The
  quotient is exactly 1.0 when \<open>v\<close> is finite and not zero and \<open>s * s\<close>, rounded, is \<open>v\<close>
  again.
\<close>

theorem self_correlation:
  assumes "varp a = Inr (Finite v)" and "v \<noteq> 0"
    and "stdevp a = Inr s" and "float_mul s s = Finite v"
  shows "correl a a = Inr (Finite 1)"
proof -
  have ne: "a \<noteq> []"
    using assms(1) by (rule varp_nonempty)
  have nz: "s \<noteq> Finite 0"
    using assms(2,4) by (auto simp add: round_double_zero)
  have "correl a a = float_div (Finite v) (float_mul s s)"
    using nz by (simp add: correl_steps [OF ne] assms(3) covar_self [OF assms(1)] and_then_Inr)
  also have "\<dots> = Inr (Finite 1)"
    using assms(2) by (simp add: assms(4) float_div_def round_double_one)
  finally show ?thesis .
qed

lemma average_13: "average [Finite 1, Finite 3] = Inr (Finite 2)"
  by (simp add: average_def float_eval)

lemma devsq_13: "devsq [Finite 1, Finite 3] = Inr (Finite 2)"
  by (simp add: devsq_def average_13 float_eval)

lemma varp_13: "varp [Finite 1, Finite 3] = Inr (Finite 1)"
  by (simp add: varp_def variance_def average_13 devsq_13 float_eval)

lemma stdevp_13: "stdevp [Finite 1, Finite 3] = Inr (Finite 1)"
  by (simp add: stdevp_def standard_deviation_def varp_13 float_eval)

theorem self_correlation_witness:
  "varp [Finite 1, Finite 3] = Inr (Finite 1) \<and> (1::real) \<noteq> 0
   \<and> stdevp [Finite 1, Finite 3] = Inr (Finite 1)
   \<and> float_mul (Finite 1) (Finite 1) = Finite 1
   \<and> correl [Finite 1, Finite 3] [Finite 1, Finite 3] = Inr (Finite 1)"
proof -
  have nz: "(1::real) \<noteq> 0"
    by simp
  have m: "float_mul (Finite 1) (Finite 1) = Finite 1"
    by (simp add: round_double_one)
  from self_correlation [OF varp_13 nz stdevp_13 m] varp_13 nz stdevp_13 m show ?thesis
    by blast
qed

lemma average_4022: "average [Finite 4, Finite 0, Finite 2, Finite 2] = Inr (Finite 2)"
  by (simp add: average_def float_eval)

lemma devsq_4022: "devsq [Finite 4, Finite 0, Finite 2, Finite 2] = Inr (Finite 8)"
  by (simp add: devsq_def average_4022 float_eval)

lemma varp_4022: "varp [Finite 4, Finite 0, Finite 2, Finite 2] = Inr (Finite 2)"
  by (simp add: varp_def variance_def average_4022 devsq_4022 float_eval)

lemma sqrt_two: "sqrt_double 2 = Finite (6369051672525773 / 4503599627370496)"
  by (simp add: float_eval)

lemma stdevp_4022:
  "stdevp [Finite 4, Finite 0, Finite 2, Finite 2]
     = Inr (Finite (6369051672525773 / 4503599627370496))"
  by (simp add: stdevp_def standard_deviation_def varp_4022 and_then_Inr sqrt_two)

text \<open>
  The claim C8 as stated fails: 4, 0, 2, 2 has the population variance 2.0, the rounded
  square root of 2.0 multiplied with itself is 2.0000000000000004, and the correlation of
  the sequence with itself is 0.9999999999999998.
\<close>

theorem self_correlation_counterexample:
  "correl [Finite 4, Finite 0, Finite 2, Finite 2] [Finite 4, Finite 0, Finite 2, Finite 2]
     = Inr (Finite (4503599627370495 / 4503599627370496))
   \<and> correl [Finite 4, Finite 0, Finite 2, Finite 2] [Finite 4, Finite 0, Finite 2, Finite 2]
     \<noteq> Inr (Finite 1)"
proof -
  have "correl [Finite 4, Finite 0, Finite 2, Finite 2] [Finite 4, Finite 0, Finite 2, Finite 2]
     = Inr (Finite (4503599627370495 / 4503599627370496))"
    by (simp add: correl_steps stdevp_4022 covar_self [OF varp_4022] float_eval)
  then show ?thesis
    by simp
qed

end
